theory Spec2Isabelle
  imports Complex_Main "HOL-Library.Sublist"
begin

section \<open>Python values used by the device wrapper\<close>

text \<open>
  The wrapper of \<^verbatim>\<open>cast_control/device/wrapper.py\<close> is embedded function by function.
  Exceptions are values: a function that can raise returns \<open>py_error + 'a\<close>, a function
  that also mutates the wrapper returns the outcome together with the wrapper it leaves
  behind.  Only the exceptions that the modelled code can raise are listed.
\<close>

datatype py_error = AttributeError | KeyError | ValueError | Overflow

text \<open>
  Truthiness of \<^verbatim>\<open>Optional[str]\<close>: \<^verbatim>\<open>None\<close> and the empty string are falsy.
\<close>

fun truthy_str :: "string option \<Rightarrow> bool" where
  "truthy_str None = False"
| "truthy_str (Some s) = (s \<noteq> [])"

section \<open>Strings and \<^verbatim>\<open>urllib.parse\<close>\<close>

text \<open>
  A Python string is modelled as a list of 8-bit characters and stands for an ASCII string;
  the theorems about URIs carry the hypothesis \<open>isascii\<close> where they need it.  On ASCII
  strings \<^verbatim>\<open>str.casefold\<close> and \<^verbatim>\<open>str.lower\<close> both map \<^verbatim>\<open>A-Z\<close> to \<^verbatim>\<open>a-z\<close>.
\<close>

definition ascii_uppercase :: string where
  "ascii_uppercase = ''ABCDEFGHIJKLMNOPQRSTUVWXYZ''"

definition ascii_lowercase :: string where
  "ascii_lowercase = ''abcdefghijklmnopqrstuvwxyz''"

definition casefold_char :: "char \<Rightarrow> char" where
  "casefold_char c =
     (case map_of (zip ascii_uppercase ascii_lowercase) c of Some l \<Rightarrow> l | None \<Rightarrow> c)"

definition casefold :: "string \<Rightarrow> string" where
  "casefold s = map casefold_char s"


text \<open>
  \<^verbatim>\<open>urlsplit\<close> of CPython 3.11, for the default arguments \<^verbatim>\<open>scheme=''\<close> and
  \<^verbatim>\<open>allow_fragments=True\<close>.  It strips leading C0 control characters and spaces, removes
  tab, carriage return and line feed, cuts a scheme off, takes the network location after
  \<^verbatim>\<open>//\<close> up to the first of \<^verbatim>\<open>/ ? #\<close>, and separates the fragment and the query.
\<close>

definition c0_control_or_space :: string where
  "c0_control_or_space =
     [CHR 0x00, CHR 0x01, CHR 0x02, CHR 0x03, CHR 0x04, CHR 0x05, CHR 0x06, CHR 0x07,
      CHR 0x08, CHR 0x09, CHR 0x0A, CHR 0x0B, CHR 0x0C, CHR 0x0D, CHR 0x0E, CHR 0x0F,
      CHR 0x10, CHR 0x11, CHR 0x12, CHR 0x13, CHR 0x14, CHR 0x15, CHR 0x16, CHR 0x17,
      CHR 0x18, CHR 0x19, CHR 0x1A, CHR 0x1B, CHR 0x1C, CHR 0x1D, CHR 0x1E, CHR 0x1F,
      CHR '' '']"

definition unsafe_url_bytes_to_remove :: string where
  "unsafe_url_bytes_to_remove = [CHR 0x09, CHR 0x0D, CHR 0x0A]"

definition scheme_chars :: string where
  "scheme_chars = ascii_lowercase @ ascii_uppercase @ ''0123456789+-.''"

definition uses_params :: "string list" where
  "uses_params = ['''', ''ftp'', ''hdl'', ''prospero'', ''http'', ''imap'', ''https'',
     ''shttp'', ''rtsp'', ''rtsps'', ''rtspu'', ''sip'', ''sips'', ''mms'', ''sftp'', ''tel'']"

text \<open>\<^verbatim>\<open>s.partition(c)\<close> without the separator: the text before the first \<open>c\<close> and after it.\<close>

definition before :: "char \<Rightarrow> string \<Rightarrow> string" where
  "before c s = takeWhile (\<lambda>x. x \<noteq> c) s"

definition after :: "char \<Rightarrow> string \<Rightarrow> string" where
  "after c s = drop 1 (dropWhile (\<lambda>x. x \<noteq> c) s)"

definition strip_url :: "string \<Rightarrow> string" where
  "strip_url url =
     filter (\<lambda>c. c \<notin> set unsafe_url_bytes_to_remove)
       (dropWhile (\<lambda>c. c \<in> set c0_control_or_space) url)"

text \<open>
  The scheme is cut off when a colon exists at an index \<open>i > 0\<close>, the first character is
  an ASCII letter and every character before the colon is a scheme character.
\<close>

definition split_scheme :: "string \<Rightarrow> string \<times> string" where
  "split_scheme url =
     (let pre = before CHR '':'' url in
      if pre \<noteq> url \<and> pre \<noteq> [] \<and> hd url \<in> set (ascii_lowercase @ ascii_uppercase)
         \<and> list_all (\<lambda>c. c \<in> set scheme_chars) pre
      then (map casefold_char pre, after CHR '':'' url)
      else ([], url))"

definition is_netloc_delim :: "char \<Rightarrow> bool" where
  "is_netloc_delim c = (c = CHR ''/'' \<or> c = CHR ''?'' \<or> c = CHR ''#'')"

definition split_netloc :: "string \<Rightarrow> string \<times> string" where
  "split_netloc url =
     (if take 2 url = ''//''
      then (takeWhile (\<lambda>c. \<not> is_netloc_delim c) (drop 2 url),
            dropWhile (\<lambda>c. \<not> is_netloc_delim c) (drop 2 url))
      else ([], url))"

text \<open>
  A network location with only one of the two square brackets raises \<^verbatim>\<open>ValueError\<close>.
  With both brackets CPython validates the bracketed host as an IP literal through the
  \<^verbatim>\<open>ipaddress\<close> module; that validation is outside the model, which reports every
  bracketed host as rejected.  The theorems below assume that parsing succeeds, so they
  speak about network locations without brackets only.
\<close>

definition check_bracketed_host :: "string \<Rightarrow> bool" where
  "check_bracketed_host hostname = False"

definition netloc_ok :: "string \<Rightarrow> bool" where
  "netloc_ok netloc =
     (if (CHR ''['' \<in> set netloc) \<noteq> (CHR '']'' \<in> set netloc) then False
      else if CHR ''['' \<in> set netloc
        then check_bracketed_host (before CHR '']'' (after CHR ''['' netloc))
      else True)"

definition urlsplit :: "string \<Rightarrow> py_error + (string \<times> string \<times> string \<times> string \<times> string)" where
  "urlsplit url0 =
     (let (scheme, url1) = split_scheme (strip_url url0);
          (netloc, url2) = split_netloc url1
      in if \<not> netloc_ok netloc then Inl ValueError
         else
           let fragment = after CHR ''#'' url2;
               url3 = before CHR ''#'' url2;
               query = after CHR ''?'' url3;
               url4 = before CHR ''?'' url3
           in Inr (scheme, netloc, url4, query, fragment))"

text \<open>
  \<^verbatim>\<open>_splitparams\<close>: the parameters start at the first semicolon of the last path segment.
\<close>

definition last_segment :: "string \<Rightarrow> string" where
  "last_segment url = rev (takeWhile (\<lambda>c. c \<noteq> CHR ''/'') (rev url))"

definition splitparams :: "string \<Rightarrow> string \<times> string" where
  "splitparams url =
     (if CHR ''/'' \<in> set url
      then
        (if CHR '';'' \<in> set (last_segment url)
         then (take (length url - length (last_segment url)) url @ before CHR '';'' (last_segment url),
               after CHR '';'' (last_segment url))
         else (url, []))
      else (before CHR '';'' url, after CHR '';'' url))"

record ParseResult =
  scheme :: string
  netloc :: string
  path :: string
  params :: string
  query :: string
  fragment :: string

definition urlparse :: "string \<Rightarrow> py_error + ParseResult" where
  "urlparse url =
     (case urlsplit url of
        Inl e \<Rightarrow> Inl e
      | Inr (sch, loc, url1, qry, frag) \<Rightarrow>
          let (url2, prm) =
                (if sch \<in> set uses_params \<and> CHR '';'' \<in> set url1
                 then splitparams url1 else (url1, []))
          in Inr \<lparr>scheme = sch, netloc = loc, path = url2, params = prm,
                   query = qry, fragment = frag\<rparr>)"

text \<open>
  \<^verbatim>\<open>parse_qs\<close> with its default arguments: the fields are separated by \<^verbatim>\<open>&\<close>, a field
  without a value is dropped, \<^verbatim>\<open>+\<close> becomes a space and \<^verbatim>\<open>%xx\<close> is decoded.  A decoded
  byte above 127 stays a byte here (Python decodes the bytes as UTF-8).  The dictionary
  maps a name to the list of its values in the order of the query.
\<close>

fun split_on :: "char \<Rightarrow> string \<Rightarrow> string list" where
  "split_on sep [] = [[]]"
| "split_on sep (c # cs) =
     (if c = sep then [] # split_on sep cs
      else (case split_on sep cs of [] \<Rightarrow> [[c]] | w # ws \<Rightarrow> (c # w) # ws))"

definition hexdig :: "(char \<times> nat) list" where
  "hexdig = zip ''0123456789ABCDEFabcdef''
     [0, 1, 2, 3, 4, 5, 6, 7, 8, 9, 10, 11, 12, 13, 14, 15, 10, 11, 12, 13, 14, 15]"

fun unquote :: "string \<Rightarrow> string" where
  "unquote (c # a # b # rest) =
     (if c = CHR ''%'' then
        (case (map_of hexdig a, map_of hexdig b) of
           (Some h, Some l) \<Rightarrow> char_of (16 * h + l) # unquote rest
         | _ \<Rightarrow> c # unquote (a # b # rest))
      else c # unquote (a # b # rest))"
| "unquote s = s"

definition unquote_plus :: "string \<Rightarrow> string" where
  "unquote_plus s = unquote (map (\<lambda>c. if c = CHR ''+'' then CHR '' '' else c) s)"

definition parse_qsl :: "string \<Rightarrow> (string \<times> string) list" where
  "parse_qsl qs =
     (if qs = [] then []
      else concat (map (\<lambda>name_value.
             if name_value \<noteq> [] \<and> after CHR ''='' name_value \<noteq> []
             then [(unquote_plus (before CHR ''='' name_value),
                    unquote_plus (after CHR ''='' name_value))]
             else [])
           (split_on CHR ''&'' qs)))"

definition parse_qs :: "string \<Rightarrow> string \<Rightarrow> string list option" where
  "parse_qs qs name =
     (let vals = map snd (filter (\<lambda>(n, v). n = name) (parse_qsl qs))
      in if vals = [] then None else Some vals)"

section \<open>Content identifier\<close>

definition VIDEO_QS :: string where
  "VIDEO_QS = ''v''"

text \<open>The members of the enumeration \<^verbatim>\<open>YoutubeUrl\<close>, in the order of their definition.\<close>

definition YoutubeUrl_long :: string where
  "YoutubeUrl_long = ''youtube.com''"

definition YoutubeUrl_short :: string where
  "YoutubeUrl_short = ''youtu.be''"

definition YoutubeUrl_watch :: string where
  "YoutubeUrl_watch = ''https://'' @ YoutubeUrl_long @ ''/watch?v=''"

definition YoutubeUrl :: "string list" where
  "YoutubeUrl = [YoutubeUrl_long, YoutubeUrl_short, YoutubeUrl_watch]"


text \<open>\<^verbatim>\<open>url in parsed.netloc\<close> is a substring test.\<close>

definition is_youtube :: "string \<Rightarrow> py_error + bool" where
  "is_youtube uri =
     (case urlparse (casefold uri) of
        Inl e \<Rightarrow> Inl e
      | Inr parsed \<Rightarrow> Inr (list_ex (\<lambda>url. sublist url (netloc parsed)) YoutubeUrl))"

definition YoutubeUrl_is_youtube :: "string \<Rightarrow> py_error + bool" where
  "YoutubeUrl_is_youtube uri = (if uri = [] then Inr False else is_youtube uri)"

definition get_content_id :: "string \<Rightarrow> py_error + string option" where
  "get_content_id uri =
     (case YoutubeUrl_is_youtube uri of
        Inl e \<Rightarrow> Inl e
      | Inr False \<Rightarrow> Inr None
      | Inr True \<Rightarrow>
          (case urlparse uri of
             Inl e \<Rightarrow> Inl e
           | Inr parsed \<Rightarrow>
               if netloc parsed = YoutubeUrl_long then
                 (case parse_qs (query parsed) VIDEO_QS of
                    None \<Rightarrow> Inl KeyError
                  | Some [content_id] \<Rightarrow> Inr (Some content_id)
                  | Some _ \<Rightarrow> Inl ValueError)
               else if netloc parsed = YoutubeUrl_short then Inr (Some (drop 1 (path parsed)))
               else Inr None))"

section \<open>Numbers\<close>




definition NO_DURATION :: int where
  "NO_DURATION = 0"

definition NO_DELTA :: int where
  "NO_DELTA = 0"



definition MAX_TITLES :: nat where
  "MAX_TITLES = 3"

text \<open>
  The remaining constants of the missing modules and the two library functions whose
  tables are not part of the sources are parameters of the model.
\<close>

record Base =
  TITLE :: string
  LIGHT_THUMB :: string
  DEFAULT_THUMB :: string
  DEFAULT_DISC_NO :: int
  get_track_id :: "string option \<Rightarrow> string"
  guess_type :: "string \<Rightarrow> string option"

section \<open>Device state\<close>

text \<open>
  The objects of \<^verbatim>\<open>pychromecast\<close> that the wrapper reads.  Their attributes carry a
  prefix (\<open>ms\<close> media status, \<open>cs\<close> cast status, \<open>mc\<close> media controller, \<open>dev\<close> device);
  the plain names are kept for the functions of the wrapper.  A status is a snapshot:
  \<^verbatim>\<open>adjusted_current_time\<close> is the value that the property has when it is read.
\<close>

record MediaImage =
  image_url :: "string option"
  image_height :: "int option"
  image_width :: "int option"

record MediaStatus =
  ms_series_title :: "string option"
  ms_artist :: "string option"
  ms_album_name :: "string option"
  ms_media_metadata :: "(string \<times> string) list"
  ms_duration :: "rat option"
  ms_adjusted_current_time :: "rat option"
  ms_current_time :: "rat option"
  ms_images :: "MediaImage list"
  ms_content_id :: "string option"
  ms_track :: "int option"

text \<open>A finite binary float \<open>m * 2^k\<close>, as the device reports the volume level.\<close>

datatype float64 = Float int int

record CastStatus =
  cs_icon_url :: "string option"
  cs_volume_level :: float64
  cs_volume_muted :: bool

record MediaController =
  mc_status :: "MediaStatus option"
  mc_title :: "string option"

record Device =
  dev_status :: "CastStatus option"
  dev_media_controller :: MediaController
  dev_app_id :: "string option"
  dev_app_display_name :: "string option"

record CachedIcon =
  url :: string
  app_id :: "string option"
  title :: "string option"

datatype Titles = Titles "string option" "string option" "string option"

text \<open>The result of \<^verbatim>\<open>float(...)\<close>: a finite binary float or an infinity.\<close>

datatype pyfloat = Finite float64 | PosInf | NegInf

text \<open>
  The calls that the wrapper makes on the device and on its controllers.  The wrapper
  appends every call to \<open>commands\<close>; what the device does with it is not modelled.
\<close>

datatype command =
    YtLaunch
  | YtPlayVideo string
  | YtAddToQueue string
  | PlayMedia string "string option"
  | VolumeUp pyfloat
  | VolumeDown pyfloat

record DeviceWrapper =
  dev :: Device
  ctls_yt_is_active :: bool
  cached_icon :: "CachedIcon option"
  light_icon :: bool
  longest_duration :: "int option"
  commands :: "command list"

definition issue :: "command \<Rightarrow> DeviceWrapper \<Rightarrow> DeviceWrapper" where
  "issue c s = s\<lparr>commands := commands s @ [c]\<rparr>"

section \<open>StatusMixin\<close>

definition cast_status :: "DeviceWrapper \<Rightarrow> CastStatus option" where
  "cast_status s = dev_status (dev s)"

definition media_controller :: "DeviceWrapper \<Rightarrow> MediaController" where
  "media_controller s = dev_media_controller (dev s)"

definition media_status :: "DeviceWrapper \<Rightarrow> MediaStatus option" where
  "media_status s = mc_status (media_controller s)"

section \<open>TitlesMixin\<close>

text \<open>\<^verbatim>\<open>if x := e: titles.append(x)\<close>: a value that is \<^verbatim>\<open>None\<close> or empty is skipped.\<close>

fun append_if :: "string option \<Rightarrow> string list \<Rightarrow> string list" where
  "append_if None ts = ts"
| "append_if (Some x) ts = (if x \<noteq> [] then ts @ [x] else ts)"

definition get_subtitle :: "DeviceWrapper \<Rightarrow> string option" where
  "get_subtitle s =
     (case media_status s of
        None \<Rightarrow> None
      | Some ms \<Rightarrow>
          if ms_media_metadata ms = [] then None
          else (case map_of (ms_media_metadata ms) ''subtitle'' of
                  None \<Rightarrow> None
                | Some subtitle \<Rightarrow> if subtitle \<noteq> [] then Some subtitle else None))"

text \<open>\<^verbatim>\<open>Titles(*titles)\<close> for a list of at most three entries; missing fields are \<^verbatim>\<open>None\<close>.\<close>

fun Titles_of :: "string list \<Rightarrow> Titles" where
  "Titles_of [] = Titles None None None"
| "Titles_of [a] = Titles (Some a) None None"
| "Titles_of [a, b] = Titles (Some a) (Some b) None"
| "Titles_of (a # b # c # _) = Titles (Some a) (Some b) (Some c)"

definition titles_list :: "Base \<Rightarrow> DeviceWrapper \<Rightarrow> string list" where
  "titles_list b s =
     (let status = media_status s;
          t1 = append_if (mc_title (media_controller s)) [];
          t2 = (case status of None \<Rightarrow> t1 | Some st \<Rightarrow> append_if (ms_series_title st) t1);
          t3 = append_if (get_subtitle s) t2;
          t4 = (case status of
                  None \<Rightarrow> t3
                | Some st \<Rightarrow> append_if (ms_album_name st) (append_if (ms_artist st) t3));
          t5 = append_if (dev_app_display_name (dev s)) t4;
          t6 = (if t5 = [] then t5 @ [TITLE b] else t5)
      in take MAX_TITLES t6)"

definition titles :: "Base \<Rightarrow> DeviceWrapper \<Rightarrow> Titles" where
  "titles b s = Titles_of (titles_list b s)"

text \<open>\<^verbatim>\<open>title, *_ = self.titles\<close>\<close>

fun first_title :: "Titles \<Rightarrow> string option" where
  "first_title (Titles t _ _) = t"

section \<open>TimeMixin\<close>






section \<open>IconsMixin\<close>

definition set_cached_icon :: "Base \<Rightarrow> string option \<Rightarrow> DeviceWrapper \<Rightarrow> DeviceWrapper" where
  "set_cached_icon b u s =
     (case u of
        None \<Rightarrow> s\<lparr>cached_icon := None\<rparr>
      | Some v \<Rightarrow>
          if v = [] then s\<lparr>cached_icon := None\<rparr>
          else s\<lparr>cached_icon :=
                 Some \<lparr>url = v, app_id = dev_app_id (dev s), title = first_title (titles b s)\<rparr>\<rparr>)"

definition can_use_cache :: "Base \<Rightarrow> DeviceWrapper \<Rightarrow> bool" where
  "can_use_cache b s =
     (case cached_icon s of
        None \<Rightarrow> False
      | Some icon \<Rightarrow>
          if url icon = [] then False
          else app_id icon = dev_app_id (dev s) \<and> title icon = first_title (titles b s))"

text \<open>
  \<^verbatim>\<open>self.media_status.images\<close> is read without a check of \<^verbatim>\<open>self.media_status\<close>: on
  \<^verbatim>\<open>None\<close> the attribute access raises \<^verbatim>\<open>AttributeError\<close>.
\<close>

definition get_icon_from_device ::
  "Base \<Rightarrow> DeviceWrapper \<Rightarrow> (py_error + string option) \<times> DeviceWrapper" where
  "get_icon_from_device b s =
     (case media_status s of
        None \<Rightarrow> (Inl AttributeError, s)
      | Some ms \<Rightarrow>
          (case ms_images ms of
             first # _ \<Rightarrow> (Inr (image_url first), set_cached_icon b (image_url first) s)
           | [] \<Rightarrow>
               (case cast_status s of
                  Some cs \<Rightarrow>
                    if truthy_str (cs_icon_url cs)
                    then (Inr (cs_icon_url cs), set_cached_icon b (cs_icon_url cs) s)
                    else if \<not> can_use_cache b s then (Inr None, s)
                    else (Inr (map_option url (cached_icon s)), s)
                | None \<Rightarrow>
                    if \<not> can_use_cache b s then (Inr None, s)
                    else (Inr (map_option url (cached_icon s)), s))))"

text \<open>
  The decorator \<^verbatim>\<open>ensure_user_dirs_exist\<close> of \<^verbatim>\<open>_get_default_icon\<close> creates the
  directories of the user; it belongs to a module that is not part of the sources and
  does not change the value returned.
\<close>

definition get_default_icon :: "Base \<Rightarrow> DeviceWrapper \<Rightarrow> string" where
  "get_default_icon b s = (if light_icon s then LIGHT_THUMB b else DEFAULT_THUMB b)"

definition get_art_url :: "Base \<Rightarrow> DeviceWrapper \<Rightarrow> (py_error + string) \<times> DeviceWrapper" where
  "get_art_url b s =
     (case get_icon_from_device b s of
        (Inl e, s') \<Rightarrow> (Inl e, s')
      | (Inr icon, s') \<Rightarrow>
          (case icon of
             None \<Rightarrow> (Inr (get_default_icon b s'), s')
           | Some i \<Rightarrow> if i \<noteq> [] then (Inr i, s') else (Inr (get_default_icon b s'), s')))"

section \<open>ControllersMixin\<close>

definition launch_youtube :: "DeviceWrapper \<Rightarrow> DeviceWrapper" where
  "launch_youtube s = issue YtLaunch s"

definition play_youtube :: "string \<Rightarrow> DeviceWrapper \<Rightarrow> DeviceWrapper" where
  "play_youtube video_id s =
     issue (YtPlayVideo video_id) (if \<not> ctls_yt_is_active s then launch_youtube s else s)"



definition open_uri :: "Base \<Rightarrow> string \<Rightarrow> DeviceWrapper \<Rightarrow> py_error + DeviceWrapper" where
  "open_uri b uri s =
     (case get_content_id uri of
        Inl e \<Rightarrow> Inl e
      | Inr video_id \<Rightarrow>
          (case video_id of
             None \<Rightarrow> Inr (issue (PlayMedia uri (guess_type b uri)) s)
           | Some v \<Rightarrow>
               if v \<noteq> [] then Inr (play_youtube v s)
               else Inr (issue (PlayMedia uri (guess_type b uri)) s)))"

text \<open>The argument \<open>after_track\<close> is a D-Bus object path, a string.\<close>

definition add_track ::
  "Base \<Rightarrow> string \<Rightarrow> string \<Rightarrow> bool \<Rightarrow> DeviceWrapper \<Rightarrow> py_error + DeviceWrapper" where
  "add_track b uri after_track set_as_current s =
     (case get_content_id uri of
        Inl e \<Rightarrow> Inl e
      | Inr video_id \<Rightarrow>
          (case video_id of
             None \<Rightarrow> if set_as_current then open_uri b uri s else Inr s
           | Some v \<Rightarrow>
               if v \<noteq> [] then
                 (if set_as_current
                  then Inr (issue (YtPlayVideo v) (issue (YtAddToQueue v) s))
                  else Inr (issue (YtAddToQueue v) s))
               else if set_as_current then open_uri b uri s else Inr s))"

section \<open>MetadataMixin\<close>



section \<open>VolumeMixin\<close>

text \<open>
  A finite \<^verbatim>\<open>Decimal\<close> is a coefficient and an exponent, \<open>c * 10^e\<close>; infinities and
  NaN are outside the model.  Arithmetic on decimals rounds to the default context:
  28 significant digits, ties to even, exponents between \<open>Emin\<close> and \<open>Emax\<close>, and a
  result above the range raises \<^verbatim>\<open>Overflow\<close>.  \<^verbatim>\<open>Decimal(x)\<close> of a float is exact;
  \<^verbatim>\<open>float(d)\<close> rounds to the nearest binary64 number, ties to even, with subnormal
  numbers below \<open>2^-1022\<close>, zero below them and an infinity from \<open>2^1024\<close> on.
\<close>

datatype Decimal = Decimal int int

definition dec_value :: "Decimal \<Rightarrow> rat" where
  "dec_value d = (case d of Decimal c e \<Rightarrow> of_int c * 10 ^ nat e / 10 ^ nat (- e))"

definition float_value :: "float64 \<Rightarrow> rat" where
  "float_value x = (case x of Float m k \<Rightarrow> of_int m * 2 ^ nat k / 2 ^ nat (- k))"

function ndigits :: "int \<Rightarrow> int \<Rightarrow> int" where
  "ndigits b a = (if 0 < a \<and> 1 < b then ndigits b (a div b) + 1 else 0)"
  by pat_completeness auto
termination
  by (relation "measure (\<lambda>(b, a). nat a)") (auto intro: int_div_less_self)

definition round_half_even_div :: "int \<Rightarrow> int \<Rightarrow> int" where
  "round_half_even_div p q =
     (let f = p div q; r = p mod q
      in if 2 * r < q then f else if q < 2 * r then f + 1 else if even f then f else f + 1)"

definition context_prec :: int where
  "context_prec = 28"

definition Emax :: int where
  "Emax = 999999"

definition Emin :: int where
  "Emin = - 999999"

definition Etiny :: int where
  "Etiny = Emin - context_prec + 1"

definition context_round :: "Decimal \<Rightarrow> py_error + Decimal" where
  "context_round d =
     (case d of Decimal c e \<Rightarrow>
      let shift = max (ndigits 10 \<bar>c\<bar> - context_prec) (Etiny - e);
          c' = (if shift \<le> 0 then c else sgn c * round_half_even_div \<bar>c\<bar> (10 ^ nat shift));
          e' = (if shift \<le> 0 then e else e + shift)
      in if c' \<noteq> 0 \<and> Emax < ndigits 10 \<bar>c'\<bar> - 1 + e' then Inl Overflow
         else Inr (Decimal c' e'))"

definition decimal_sub :: "Decimal \<Rightarrow> Decimal \<Rightarrow> py_error + Decimal" where
  "decimal_sub a b =
     (case (a, b) of (Decimal c1 e1, Decimal c2 e2) \<Rightarrow>
      let e = min e1 e2
      in context_round (Decimal (c1 * 10 ^ nat (e1 - e) - c2 * 10 ^ nat (e2 - e)) e))"

definition Decimal_of_float :: "float64 \<Rightarrow> Decimal" where
  "Decimal_of_float x =
     (case x of Float m k \<Rightarrow>
      if 0 \<le> k then Decimal (m * 2 ^ nat k) 0 else Decimal (m * 5 ^ nat (- k)) k)"

text \<open>
  The exponent of the binary64 number format for the positive rational \<open>p / q\<close>: the
  integer part of its binary logarithm, and \<open>-1022\<close> in the subnormal range.
\<close>

definition binary_exponent :: "int \<Rightarrow> int \<Rightarrow> int" where
  "binary_exponent p q =
     (if p * 2 ^ 1022 < q then - 1022
      else
        let k = ndigits 2 p - ndigits 2 q
        in if q * 2 ^ nat k \<le> p * 2 ^ nat (- k) then k else k - 1)"

definition float_of_Decimal :: "Decimal \<Rightarrow> pyfloat" where
  "float_of_Decimal d =
     (case d of Decimal c e \<Rightarrow>
      if c = 0 then Finite (Float 0 0)
      else
        let p = \<bar>c\<bar> * 10 ^ nat e;
            q = 10 ^ nat (- e);
            ex = binary_exponent p q;
            u = ex - 52;
            m = round_half_even_div (p * 2 ^ nat (- u)) (q * 2 ^ nat u)
        in if 1023 < ex \<or> (ex = 1023 \<and> m = 2 ^ 53)
           then (if 0 < c then PosInf else NegInf)
           else Finite (Float (sgn c * m) u))"

text \<open>Comparison of a float with an integer, and \<^verbatim>\<open>abs\<close>.\<close>

fun pyfloat_gt :: "pyfloat \<Rightarrow> int \<Rightarrow> bool" where
  "pyfloat_gt (Finite x) n = (of_int n < float_value x)"
| "pyfloat_gt PosInf n = True"
| "pyfloat_gt NegInf n = False"

fun pyfloat_lt :: "pyfloat \<Rightarrow> int \<Rightarrow> bool" where
  "pyfloat_lt (Finite x) n = (float_value x < of_int n)"
| "pyfloat_lt PosInf n = False"
| "pyfloat_lt NegInf n = True"

fun pyfloat_abs :: "pyfloat \<Rightarrow> pyfloat" where
  "pyfloat_abs (Finite (Float m k)) = Finite (Float \<bar>m\<bar> k)"
| "pyfloat_abs PosInf = PosInf"
| "pyfloat_abs NegInf = PosInf"

definition get_volume :: "DeviceWrapper \<Rightarrow> Decimal option" where
  "get_volume s =
     (case cast_status s of
        None \<Rightarrow> None
      | Some cs \<Rightarrow> Some (Decimal_of_float (cs_volume_level cs)))"

definition set_volume :: "Decimal \<Rightarrow> DeviceWrapper \<Rightarrow> py_error + DeviceWrapper" where
  "set_volume val s =
     (case get_volume s of
        None \<Rightarrow> Inr s
      | Some current \<Rightarrow>
          (case decimal_sub val current of
             Inl e \<Rightarrow> Inl e
           | Inr d \<Rightarrow>
               let delta = float_of_Decimal d
               in if pyfloat_gt delta NO_DELTA then Inr (issue (VolumeUp delta) s)
                  else if pyfloat_lt delta NO_DELTA
                  then Inr (issue (VolumeDown (pyfloat_abs delta)) s)
                  else Inr s))"

section \<open>Reference behaviour and scenarios\<close>



text \<open>
  A status notification: the device replaces the media status of its media controller
  and calls the listener \<^verbatim>\<open>on_new_status\<close>.
\<close>

definition with_media_status :: "MediaStatus option \<Rightarrow> DeviceWrapper \<Rightarrow> DeviceWrapper" where
  "with_media_status ms s =
     s\<lparr>dev := (dev s)\<lparr>dev_media_controller := (media_controller s)\<lparr>mc_status := ms\<rparr>\<rparr>\<rparr>"











text \<open>No icon of the running application: no cast status, or one without an icon URL.\<close>

definition no_app_icon :: "DeviceWrapper \<Rightarrow> bool" where
  "no_app_icon s =
     (case cast_status s of None \<Rightarrow> True | Some cs \<Rightarrow> cs_icon_url cs = None \<or> cs_icon_url cs = Some [])"

section \<open>Example states\<close>

definition example_base :: Base where
  "example_base =
     \<lparr>TITLE = ''Cast Control'', LIGHT_THUMB = ''/icons/light.png'',
      DEFAULT_THUMB = ''/icons/dark.png'', DEFAULT_DISC_NO = 1,
      get_track_id = (\<lambda>t. ''/track/1''), guess_type = (\<lambda>u. None)\<rparr>"

definition empty_media_status :: MediaStatus where
  "empty_media_status =
     \<lparr>ms_series_title = None, ms_artist = None, ms_album_name = None,
      ms_media_metadata = [], ms_duration = None, ms_adjusted_current_time = None,
      ms_current_time = None, ms_images = [], ms_content_id = None, ms_track = None\<rparr>"

text \<open>A wrapper right after its construction, on a device that has reported nothing yet.\<close>

definition fresh_wrapper :: DeviceWrapper where
  "fresh_wrapper =
     \<lparr>dev = \<lparr>dev_status = None,
              dev_media_controller = \<lparr>mc_status = None, mc_title = None\<rparr>,
              dev_app_id = None, dev_app_display_name = None\<rparr>,
      ctls_yt_is_active = False, cached_icon = None, light_icon = False,
      longest_duration = Some NO_DURATION, commands = []\<rparr>"

text \<open>The media status of the title example of the specification, and a wrapper that plays it.\<close>

definition song_status :: MediaStatus where
  "song_status =
     empty_media_status\<lparr>ms_series_title := Some ''S'', ms_artist := Some ''Ar'',
       ms_album_name := Some ''Al''\<rparr>"

definition playing_wrapper :: DeviceWrapper where
  "playing_wrapper =
     fresh_wrapper\<lparr>dev :=
       \<lparr>dev_status = Some \<lparr>cs_icon_url = Some ''http://app/icon.png'',
                             cs_volume_level = Float 1 (- 2), cs_volume_muted = False\<rparr>,
        dev_media_controller = \<lparr>mc_status = Some song_status, mc_title = Some ''T''\<rparr>,
        dev_app_id = Some ''A'', dev_app_display_name = Some ''App''\<rparr>\<rparr>"


text \<open>
  The icon example of the specification: the application \<open>A\<close> plays \<open>Song1\<close> and has the
  icon \<open>u1\<close>; then the application changes to \<open>B\<close>, which has no icon.
\<close>

definition song1_wrapper :: DeviceWrapper where
  "song1_wrapper =
     fresh_wrapper\<lparr>dev :=
       \<lparr>dev_status = Some \<lparr>cs_icon_url = Some ''http://cast/u1.png'',
                             cs_volume_level = Float 1 (- 2), cs_volume_muted = False\<rparr>,
        dev_media_controller = \<lparr>mc_status = Some empty_media_status, mc_title = Some ''Song1''\<rparr>,
        dev_app_id = Some ''A'', dev_app_display_name = Some ''App A''\<rparr>\<rparr>"

definition application_changed :: "DeviceWrapper \<Rightarrow> DeviceWrapper" where
  "application_changed s =
     s\<lparr>dev := (dev s)\<lparr>dev_status := Some \<lparr>cs_icon_url = None, cs_volume_level = Float 1 (- 2),
                                              cs_volume_muted = False\<rparr>,
                        dev_app_id := Some ''B''\<rparr>\<rparr>"

text \<open>A media status whose first image has no URL, on a device whose application has an icon.\<close>

definition image_without_url_wrapper :: DeviceWrapper where
  "image_without_url_wrapper =
     with_media_status
       (Some (empty_media_status\<lparr>ms_images :=
          [\<lparr>image_url = None, image_height = Some 480, image_width = Some 640\<rparr>]\<rparr>))
       song1_wrapper"

text \<open>A device at the volume level 0.\<close>

definition silent_wrapper :: DeviceWrapper where
  "silent_wrapper =
     fresh_wrapper\<lparr>dev := (dev fresh_wrapper)\<lparr>dev_status :=
       Some \<lparr>cs_icon_url = None, cs_volume_level = Float 0 0, cs_volume_muted = False\<rparr>\<rparr>\<rparr>"

section \<open>Properties of the URL functions\<close>










































text \<open>
  C10: two calls of \<open>add_track\<close> that differ only in \<open>after_track\<close> have the same outcome,
  and with it the same sequence of commands.
\<close>

theorem add_track_ignores_after_track:
  "add_track b uri after1 set_as_current s = add_track b uri after2 set_as_current s"
  by (simp add: add_track_def)

theorem add_track_ignores_after_track_witness:
  "add_track example_base ''https://youtu.be/xyz'' ''/org/mpris/MediaPlayer2/TrackList/NoTrack'' True fresh_wrapper
   = add_track example_base ''https://youtu.be/xyz'' ''/track/7'' True fresh_wrapper
   \<and> add_track example_base ''https://youtu.be/xyz'' ''/track/7'' True fresh_wrapper
   = Inr (fresh_wrapper\<lparr>commands := [YtAddToQueue ''xyz'', YtPlayVideo ''xyz'']\<rparr>)"
proof -
  have g: "get_content_id ''https://youtu.be/xyz'' = Inr (Some ''xyz'')" by code_simp
  have "add_track example_base ''https://youtu.be/xyz'' ''/track/7'' True fresh_wrapper
   = Inr (fresh_wrapper\<lparr>commands := [YtAddToQueue ''xyz'', YtPlayVideo ''xyz'']\<rparr>)"
    by (simp add: add_track_def g issue_def fresh_wrapper_def)
  then show ?thesis
    using add_track_ignores_after_track[of example_base "''https://youtu.be/xyz''"
        "''/org/mpris/MediaPlayer2/TrackList/NoTrack''" True fresh_wrapper "''/track/7''"]
    by simp
qed

section \<open>Properties of the titles\<close>







section \<open>Properties of the duration estimator\<close>































section \<open>Properties of the icon resolver\<close>

lemma get_default_icon_cached: "get_default_icon b (s\<lparr>cached_icon := c\<rparr>) = get_default_icon b s"
  by (simp add: get_default_icon_def)

lemma can_use_cache_iff:
  "can_use_cache b s =
   (\<exists>c. cached_icon s = Some c \<and> url c \<noteq> [] \<and> app_id c = dev_app_id (dev s)
        \<and> title c = first_title (titles b s))"
  by (auto simp: can_use_cache_def split: option.splits)

lemma icon_from_image:
  assumes "media_status s = Some ms" and "ms_images ms = img # rest"
  shows "get_icon_from_device b s = (Inr (image_url img), set_cached_icon b (image_url img) s)"
  using assms by (simp add: get_icon_from_device_def)

lemma icon_from_cast_status:
  assumes "media_status s = Some ms" and "ms_images ms = []"
    and "cast_status s = Some cs" and "cs_icon_url cs = Some u" and "u \<noteq> []"
  shows "get_icon_from_device b s = (Inr (Some u), set_cached_icon b (Some u) s)"
  using assms by (simp add: get_icon_from_device_def)

lemma icon_from_cache:
  assumes "media_status s = Some ms" and "ms_images ms = []" and "no_app_icon s"
  shows "get_icon_from_device b s =
    (if can_use_cache b s then (Inr (map_option url (cached_icon s)), s) else (Inr None, s))"
  using assms by (auto simp: get_icon_from_device_def no_app_icon_def split: option.splits)

lemma set_cached_icon_Some:
  "u \<noteq> [] \<Longrightarrow> set_cached_icon b (Some u) s =
     s\<lparr>cached_icon := Some \<lparr>url = u, app_id = dev_app_id (dev s), title = first_title (titles b s)\<rparr>\<rparr>"
  by (simp add: set_cached_icon_def)

lemma set_cached_icon_falsy:
  "\<not> truthy_str u \<Longrightarrow> set_cached_icon b u s = s\<lparr>cached_icon := None\<rparr>"
  by (cases u) (auto simp: set_cached_icon_def)

text \<open>
  C7, as stated: on every query the resolver tries the first image URL of the media
  status, then the icon URL of the cast status, then the cache.  When the first image has
  no URL, the icon of the cast status is not tried: the default icon is returned and the
  cache is cleared, although the application has an icon.
\<close>

theorem art_url_image_without_url_counterexample:
  "map_option ms_images (media_status image_without_url_wrapper)
     = Some [\<lparr>image_url = None, image_height = Some 480, image_width = Some 640\<rparr>]
   \<and> map_option cs_icon_url (cast_status image_without_url_wrapper) = Some (Some ''http://cast/u1.png'')
   \<and> fst (get_art_url example_base image_without_url_wrapper) = Inr ''/icons/dark.png''
   \<and> fst (get_art_url example_base image_without_url_wrapper) \<noteq> Inr ''http://cast/u1.png''
   \<and> cached_icon (snd (get_art_url example_base image_without_url_wrapper)) = None"
  by code_simp

text \<open>
  C7, amended: the cached icon is used only while it has a URL and both the current
  application id and the current first title equal the stored ones.  With a media status
  present, a query of the art URL answers in this order.  If the image list of the media
  status is not empty, its first image decides: its URL is returned and cached with the
  current application id and title, and when that URL is absent or empty the cache is
  cleared and the default icon is returned.  If the image list is empty and the cast
  status has an icon URL, that URL is returned and cached.  Otherwise the cached URL is
  returned if the cache is still valid, and the default icon if not.
\<close>

theorem art_url_priority:
  assumes "media_status s = Some ms"
  shows "(\<forall>img rest u. ms_images ms = img # rest \<and> image_url img = Some u \<and> u \<noteq> []
            \<longrightarrow> get_art_url b s
                = (Inr u, s\<lparr>cached_icon := Some \<lparr>url = u, app_id = dev_app_id (dev s),
                                                  title = first_title (titles b s)\<rparr>\<rparr>))
       \<and> (\<forall>img rest. ms_images ms = img # rest \<and> (image_url img = None \<or> image_url img = Some [])
            \<longrightarrow> get_art_url b s = (Inr (get_default_icon b s), s\<lparr>cached_icon := None\<rparr>))
       \<and> (\<forall>cs u. ms_images ms = [] \<and> cast_status s = Some cs \<and> cs_icon_url cs = Some u \<and> u \<noteq> []
            \<longrightarrow> get_art_url b s
                = (Inr u, s\<lparr>cached_icon := Some \<lparr>url = u, app_id = dev_app_id (dev s),
                                                  title = first_title (titles b s)\<rparr>\<rparr>))
       \<and> (\<forall>c. ms_images ms = [] \<and> no_app_icon s \<and> cached_icon s = Some c \<and> url c \<noteq> []
              \<and> app_id c = dev_app_id (dev s) \<and> title c = first_title (titles b s)
            \<longrightarrow> get_art_url b s = (Inr (url c), s))
       \<and> (ms_images ms = [] \<and> no_app_icon s
           \<and> (cached_icon s = None
                \<or> (\<exists>c. cached_icon s = Some c
                       \<and> (url c = [] \<or> app_id c \<noteq> dev_app_id (dev s)
                            \<or> title c \<noteq> first_title (titles b s))))
            \<longrightarrow> get_art_url b s = (Inr (get_default_icon b s), s))"
proof -
  have a: "get_art_url b s
      = (Inr u, s\<lparr>cached_icon := Some \<lparr>url = u, app_id = dev_app_id (dev s),
                                        title = first_title (titles b s)\<rparr>\<rparr>)"
    if "ms_images ms = img # rest" "image_url img = Some u" "u \<noteq> []" for img rest u
    using icon_from_image[OF assms that(1), of b] that(2,3)
    by (simp add: get_art_url_def set_cached_icon_Some)
  have a': "get_art_url b s = (Inr (get_default_icon b s), s\<lparr>cached_icon := None\<rparr>)"
    if "ms_images ms = img # rest" "image_url img = None \<or> image_url img = Some []" for img rest
  proof -
    from that(2) have f: "\<not> truthy_str (image_url img)" by auto
    show ?thesis
      using icon_from_image[OF assms that(1), of b] that(2)
      by (auto simp: get_art_url_def set_cached_icon_falsy[OF f] get_default_icon_cached)
  qed
  have b: "get_art_url b s
      = (Inr u, s\<lparr>cached_icon := Some \<lparr>url = u, app_id = dev_app_id (dev s),
                                        title = first_title (titles b s)\<rparr>\<rparr>)"
    if "ms_images ms = []" "cast_status s = Some cs" "cs_icon_url cs = Some u" "u \<noteq> []" for cs u
    using icon_from_cast_status[OF assms that, of b] that(4)
    by (simp add: get_art_url_def set_cached_icon_Some)
  have c: "get_art_url b s = (Inr (url c), s)"
    if "ms_images ms = []" "no_app_icon s" "cached_icon s = Some c" "url c \<noteq> []"
      "app_id c = dev_app_id (dev s)" "title c = first_title (titles b s)" for c
  proof -
    from that(3-6) have "can_use_cache b s" by (simp add: can_use_cache_iff)
    then show ?thesis
      using icon_from_cache[OF assms that(1,2), of b] that(3,4) by (simp add: get_art_url_def)
  qed
  have d: "get_art_url b s = (Inr (get_default_icon b s), s)"
    if "ms_images ms = []" "no_app_icon s"
      "cached_icon s = None
        \<or> (\<exists>c. cached_icon s = Some c
               \<and> (url c = [] \<or> app_id c \<noteq> dev_app_id (dev s)
                    \<or> title c \<noteq> first_title (titles b s)))"
  proof -
    from that(3) have "\<not> can_use_cache b s" by (auto simp: can_use_cache_iff)
    then show ?thesis
      using icon_from_cache[OF assms that(1,2), of b] by (simp add: get_art_url_def)
  qed
  show ?thesis
    using a a' b c d by blast
qed

theorem art_url_priority_witness:
  "media_status song1_wrapper = Some empty_media_status
   \<and> get_art_url example_base song1_wrapper
       = (Inr ''http://cast/u1.png'',
          song1_wrapper\<lparr>cached_icon :=
            Some \<lparr>url = ''http://cast/u1.png'', app_id = Some ''A'', title = Some ''Song1''\<rparr>\<rparr>)
   \<and> first_title (titles example_base
        (application_changed (snd (get_art_url example_base song1_wrapper)))) = Some ''Song1''
   \<and> dev_app_id (dev (application_changed (snd (get_art_url example_base song1_wrapper)))) = Some ''B''
   \<and> get_art_url example_base (application_changed (snd (get_art_url example_base song1_wrapper)))
       = (Inr ''/icons/dark.png'', application_changed (snd (get_art_url example_base song1_wrapper)))
   \<and> get_art_url example_base ((snd (get_art_url example_base song1_wrapper))
         \<lparr>dev := (dev song1_wrapper)\<lparr>dev_status := None\<rparr>\<rparr>)
       = (Inr ''http://cast/u1.png'', (snd (get_art_url example_base song1_wrapper))
         \<lparr>dev := (dev song1_wrapper)\<lparr>dev_status := None\<rparr>\<rparr>)"
proof -
  let ?icon = "\<lparr>url = ''http://cast/u1.png'', app_id = Some ''A'', title = Some ''Song1''\<rparr>"
  let ?s1 = "song1_wrapper\<lparr>cached_icon := Some ?icon\<rparr>"
  have m: "media_status song1_wrapper = Some empty_media_status" by code_simp
  have i: "ms_images empty_media_status = []" by code_simp
  have cs: "cast_status song1_wrapper
      = Some \<lparr>cs_icon_url = Some ''http://cast/u1.png'', cs_volume_level = Float 1 (- 2),
               cs_volume_muted = False\<rparr>" by code_simp
  have t: "first_title (titles example_base song1_wrapper) = Some ''Song1''" by code_simp
  have ap: "dev_app_id (dev song1_wrapper) = Some ''A''" by code_simp
  have 1: "get_art_url example_base song1_wrapper = (Inr ''http://cast/u1.png'', ?s1)"
    using art_url_priority[OF m, of example_base] i cs t ap by simp
  let ?s2 = "application_changed ?s1"
  have m2: "media_status ?s2 = Some empty_media_status" by code_simp
  have n2: "no_app_icon ?s2" by code_simp
  have c2: "cached_icon ?s2 = Some ?icon" by code_simp
  have ap2: "dev_app_id (dev ?s2) = Some ''B''" by code_simp
  have t2: "first_title (titles example_base ?s2) = Some ''Song1''" by code_simp
  have d2: "get_default_icon example_base ?s2 = ''/icons/dark.png''" by code_simp
  have "get_art_url example_base ?s2 = (Inr (get_default_icon example_base ?s2), ?s2)"
    using art_url_priority[OF m2, of example_base] i n2 c2 ap2 by simp
  with d2 have 2: "get_art_url example_base ?s2 = (Inr ''/icons/dark.png'', ?s2)" by simp
  let ?s3 = "?s1\<lparr>dev := (dev song1_wrapper)\<lparr>dev_status := None\<rparr>\<rparr>"
  have m3: "media_status ?s3 = Some empty_media_status" by code_simp
  have n3: "no_app_icon ?s3" by code_simp
  have c3: "cached_icon ?s3 = Some ?icon" by code_simp
  have ap3: "dev_app_id (dev ?s3) = Some ''A''" by code_simp
  have t3: "first_title (titles example_base ?s3) = Some ''Song1''" by code_simp
  have 3: "get_art_url example_base ?s3 = (Inr ''http://cast/u1.png'', ?s3)"
    using art_url_priority[OF m3, of example_base] i n3 c3 ap3 t3 by simp
  show ?thesis
    using m 1 2 3 t2 ap2 by simp
qed





section \<open>Properties of the volume\<close>

lemma float_value_pos: "(0 < float_value (Float m k)) = (0 < m)"
  by (simp add: float_value_def zero_less_divide_iff zero_less_mult_iff)

lemma float_value_neg: "(float_value (Float m k) < 0) = (m < 0)"
  by (simp add: float_value_def divide_less_0_iff mult_less_0_iff)

lemma dec_value_pos: "(0 < dec_value (Decimal c e)) = (0 < c)"
  by (simp add: dec_value_def zero_less_divide_iff zero_less_mult_iff)

lemma dec_value_neg: "(dec_value (Decimal c e) < 0) = (c < 0)"
  by (simp add: dec_value_def divide_less_0_iff mult_less_0_iff)

lemma dec_value_zero: "(dec_value (Decimal c e) = 0) = (c = 0)"
  by (simp add: dec_value_def)

lemma round_half_even_div_nonneg: "0 \<le> p \<Longrightarrow> 0 < q \<Longrightarrow> 0 \<le> round_half_even_div p q"
  by (simp add: round_half_even_div_def Let_def pos_imp_zdiv_nonneg_iff)

lemma float_of_Decimal_sign:
  "float_of_Decimal (Decimal c e) = Finite (Float 0 0) \<and> c = 0
   \<or> c \<noteq> 0 \<and> (float_of_Decimal (Decimal c e) = (if 0 < c then PosInf else NegInf)
               \<or> (\<exists>m u. 0 \<le> m \<and> float_of_Decimal (Decimal c e) = Finite (Float (sgn c * m) u)))"
proof (cases "c = 0")
  case True
  then show ?thesis by (simp add: float_of_Decimal_def)
next
  case False
  let ?p = "\<bar>c\<bar> * 10 ^ nat e"
  let ?q = "(10 :: int) ^ nat (- e)"
  let ?u = "binary_exponent ?p ?q - 52"
  let ?m = "round_half_even_div (?p * 2 ^ nat (- ?u)) (?q * 2 ^ nat ?u)"
  have "0 \<le> ?m"
    by (rule round_half_even_div_nonneg) simp_all
  moreover have "float_of_Decimal (Decimal c e) = (if 0 < c then PosInf else NegInf)
      \<or> float_of_Decimal (Decimal c e) = Finite (Float (sgn c * ?m) ?u)"
    using False by (simp add: float_of_Decimal_def Let_def)
  ultimately show ?thesis
    using False by blast
qed

lemma float_of_Decimal_gt: "pyfloat_gt (float_of_Decimal (Decimal c e)) 0 \<Longrightarrow> 0 < c"
  using float_of_Decimal_sign[of c e]
  by (auto simp: float_value_pos zero_less_mult_iff sgn_if split: if_splits)

lemma float_of_Decimal_lt: "pyfloat_lt (float_of_Decimal (Decimal c e)) 0 \<Longrightarrow> c < 0"
  using float_of_Decimal_sign[of c e]
  by (auto simp: float_value_neg mult_less_0_iff sgn_if split: if_splits)

lemma float_of_Decimal_zero:
  "\<not> pyfloat_gt (float_of_Decimal (Decimal 0 e)) 0 \<and> \<not> pyfloat_lt (float_of_Decimal (Decimal 0 e)) 0"
  by (simp add: float_of_Decimal_def float_value_def)

lemma set_volume_delta:
  assumes "cast_status s = Some cs"
    and "decimal_sub val (Decimal_of_float (cs_volume_level cs)) = Inr d"
  shows "set_volume val s =
    (if pyfloat_gt (float_of_Decimal d) NO_DELTA then Inr (issue (VolumeUp (float_of_Decimal d)) s)
     else if pyfloat_lt (float_of_Decimal d) NO_DELTA
     then Inr (issue (VolumeDown (pyfloat_abs (float_of_Decimal d))) s)
     else Inr s)"
  using assms by (simp add: set_volume_def get_volume_def Let_def)

text \<open>
  C9, as stated: a positive decimal delta gives exactly one volume-up command.  From the
  level 0, the target \<open>1E-324\<close> has the positive delta \<open>1E-324\<close>; as a float the delta is 0,
  and \<open>set_volume\<close> issues no command.
\<close>

theorem set_volume_underflow_counterexample:
  "get_volume silent_wrapper = Some (Decimal 0 0)
   \<and> decimal_sub (Decimal 1 (- 324)) (Decimal 0 0) = Inr (Decimal 1 (- 324))
   \<and> 0 < dec_value (Decimal 1 (- 324))
   \<and> float_of_Decimal (Decimal 1 (- 324)) = Finite (Float 0 (- 1074))
   \<and> set_volume (Decimal 1 (- 324)) silent_wrapper = Inr silent_wrapper
   \<and> commands silent_wrapper = []"
proof -
  have v: "get_volume silent_wrapper = Some (Decimal 0 0)" by code_simp
  have d: "decimal_sub (Decimal 1 (- 324)) (Decimal 0 0) = Inr (Decimal 1 (- 324))" by code_simp
  have p: "0 < dec_value (Decimal 1 (- 324))" by (simp add: dec_value_pos)
  have f: "float_of_Decimal (Decimal 1 (- 324)) = Finite (Float 0 (- 1074))" by code_simp
  have g: "\<not> pyfloat_gt (Finite (Float 0 (- 1074))) NO_DELTA"
    by (simp add: float_value_pos NO_DELTA_def)
  have l: "\<not> pyfloat_lt (Finite (Float 0 (- 1074))) NO_DELTA"
    by (simp add: float_value_neg NO_DELTA_def)
  have s: "set_volume (Decimal 1 (- 324)) silent_wrapper = Inr silent_wrapper"
    using v d f g l by (simp add: set_volume_def Let_def)
  have c: "commands silent_wrapper = []" by code_simp
  show ?thesis using v d p f s c by blast
qed

text \<open>
  C9, amended: with a cast status present, \<open>set_volume\<close> subtracts the current level from
  the target as decimals (in the decimal context, 28 significant digits) and converts the
  delta to a binary float.  It issues exactly one volume-up command carrying that float
  when the float is positive, exactly one volume-down command carrying its absolute value
  when the float is negative, and no command when the float is zero.  A volume-up is
  issued only for a positive decimal delta, a volume-down only for a negative one, and
  nothing for a delta of zero.
\<close>

theorem set_volume_sends_float_delta:
  assumes "cast_status s = Some cs"
    and "decimal_sub val (Decimal_of_float (cs_volume_level cs)) = Inr d"
  shows "(pyfloat_gt (float_of_Decimal d) 0
            \<longrightarrow> set_volume val s = Inr (issue (VolumeUp (float_of_Decimal d)) s) \<and> 0 < dec_value d)
       \<and> (pyfloat_lt (float_of_Decimal d) 0
            \<longrightarrow> set_volume val s = Inr (issue (VolumeDown (pyfloat_abs (float_of_Decimal d))) s)
                \<and> dec_value d < 0)
       \<and> (\<not> pyfloat_gt (float_of_Decimal d) 0 \<and> \<not> pyfloat_lt (float_of_Decimal d) 0
            \<longrightarrow> set_volume val s = Inr s)
       \<and> (dec_value d = 0 \<longrightarrow> set_volume val s = Inr s)"
proof -
  obtain c e where d: "d = Decimal c e" by (cases d)
  note sv = set_volume_delta[OF assms, unfolded NO_DELTA_def]
  have up: "set_volume val s = Inr (issue (VolumeUp (float_of_Decimal d)) s) \<and> 0 < dec_value d"
    if "pyfloat_gt (float_of_Decimal d) 0"
    using sv that float_of_Decimal_gt[of c e] by (simp add: d dec_value_pos)
  have down: "set_volume val s = Inr (issue (VolumeDown (pyfloat_abs (float_of_Decimal d))) s)
      \<and> dec_value d < 0"
    if "pyfloat_lt (float_of_Decimal d) 0"
  proof -
    from that have neg: "c < 0" using float_of_Decimal_lt[of c e] by (simp add: d)
    then have "\<not> pyfloat_gt (float_of_Decimal d) 0"
      using float_of_Decimal_gt[of c e] by (auto simp: d)
    with sv that neg show ?thesis by (simp add: d dec_value_neg)
  qed
  have none: "set_volume val s = Inr s"
    if "\<not> pyfloat_gt (float_of_Decimal d) 0" "\<not> pyfloat_lt (float_of_Decimal d) 0"
    using sv that by simp
  have zero: "set_volume val s = Inr s" if "dec_value d = 0"
  proof -
    from that have "c = 0" by (simp add: d dec_value_zero)
    then show ?thesis
      using none float_of_Decimal_zero[of e] by (simp add: d)
  qed
  show ?thesis
    using up down none zero by blast
qed

theorem set_volume_sends_float_delta_witness:
  "cast_status playing_wrapper
     = Some \<lparr>cs_icon_url = Some ''http://app/icon.png'', cs_volume_level = Float 1 (- 2),
             cs_volume_muted = False\<rparr>
   \<and> decimal_sub (Decimal 75 (- 2)) (Decimal_of_float (Float 1 (- 2))) = Inr (Decimal 50 (- 2))
   \<and> set_volume (Decimal 75 (- 2)) playing_wrapper
       = Inr (issue (VolumeUp (Finite (Float 4503599627370496 (- 53)))) playing_wrapper)
   \<and> decimal_sub (Decimal 0 0) (Decimal_of_float (Float 1 (- 2))) = Inr (Decimal (- 25) (- 2))
   \<and> set_volume (Decimal 0 0) playing_wrapper
       = Inr (issue (VolumeDown (Finite (Float 4503599627370496 (- 54)))) playing_wrapper)
   \<and> decimal_sub (Decimal 25 (- 2)) (Decimal_of_float (Float 1 (- 2))) = Inr (Decimal 0 (- 2))
   \<and> set_volume (Decimal 25 (- 2)) playing_wrapper = Inr playing_wrapper
   \<and> set_volume (Decimal 3 (- 1)) silent_wrapper
       = Inr (issue (VolumeUp (Finite (Float 5404319552844595 (- 54)))) silent_wrapper)"
proof -
  let ?cs = "\<lparr>cs_icon_url = Some ''http://app/icon.png'', cs_volume_level = Float 1 (- 2),
             cs_volume_muted = False\<rparr>"
  let ?z = "\<lparr>cs_icon_url = None, cs_volume_level = Float 0 0, cs_volume_muted = False\<rparr>"
  have cs: "cast_status playing_wrapper = Some ?cs" by code_simp
  have l: "cs_volume_level ?cs = Float 1 (- 2)" by simp
  have d1: "decimal_sub (Decimal 75 (- 2)) (Decimal_of_float (Float 1 (- 2))) = Inr (Decimal 50 (- 2))"
    by code_simp
  have f1: "float_of_Decimal (Decimal 50 (- 2)) = Finite (Float 4503599627370496 (- 53))"
    by code_simp
  have 1: "set_volume (Decimal 75 (- 2)) playing_wrapper
       = Inr (issue (VolumeUp (Finite (Float 4503599627370496 (- 53)))) playing_wrapper)"
    using set_volume_sends_float_delta[OF cs, of "Decimal 75 (- 2)" "Decimal 50 (- 2)"] d1
    by (simp add: f1 float_value_pos)
  have d2: "decimal_sub (Decimal 0 0) (Decimal_of_float (Float 1 (- 2))) = Inr (Decimal (- 25) (- 2))"
    by code_simp
  have f2: "float_of_Decimal (Decimal (- 25) (- 2)) = Finite (Float (- 4503599627370496) (- 54))"
    by code_simp
  have 2: "set_volume (Decimal 0 0) playing_wrapper
       = Inr (issue (VolumeDown (Finite (Float 4503599627370496 (- 54)))) playing_wrapper)"
    using set_volume_sends_float_delta[OF cs, of "Decimal 0 0" "Decimal (- 25) (- 2)"] d2
    by (simp add: f2 float_value_neg)
  have d3: "decimal_sub (Decimal 25 (- 2)) (Decimal_of_float (Float 1 (- 2))) = Inr (Decimal 0 (- 2))"
    by code_simp
  have 3: "set_volume (Decimal 25 (- 2)) playing_wrapper = Inr playing_wrapper"
    using set_volume_sends_float_delta[OF cs, of "Decimal 25 (- 2)" "Decimal 0 (- 2)"] d3
    by (simp add: dec_value_zero)
  have cz: "cast_status silent_wrapper = Some ?z" by code_simp
  have d4: "decimal_sub (Decimal 3 (- 1)) (Decimal_of_float (cs_volume_level ?z)) = Inr (Decimal 3 (- 1))"
    by code_simp
  have f4: "float_of_Decimal (Decimal 3 (- 1)) = Finite (Float 5404319552844595 (- 54))"
    by code_simp
  have 4: "set_volume (Decimal 3 (- 1)) silent_wrapper
       = Inr (issue (VolumeUp (Finite (Float 5404319552844595 (- 54)))) silent_wrapper)"
    using set_volume_sends_float_delta[OF cz d4] by (simp add: f4 float_value_pos)
  show ?thesis
    using cs d1 1 d2 2 d3 3 4 by blast
qed

end
